theory Spec2Isabelle
  imports Main
begin

section \<open>Data model\<close>

text \<open>
  A log record (structlog's \<open>event_dict\<close>) is a Python \<open>dict\<close> from field names to values.
  The enrichers assign into the dictionary they are handed and return that same object, so
  dictionaries live in a store and are passed around by reference.
\<close>

datatype pyval = PStr string | PInt int | PBool bool | PNone

type_synonym event_dict = "string \<rightharpoonup> pyval"

type_synonym ref = nat

text \<open>
  A span context carries a trace identifier, a span identifier and the trace flags. Each is
  a Python \<open>int\<close>: the tracing library draws them from 128, 64 and 8 bits, but nothing in
  the type or in the enrichers bounds them.
\<close>

record span_context =
  trace_id :: int
  span_id :: int
  trace_flags :: int

datatype status_code = UNSET | OK | ERROR

record span =
  is_recording :: bool
  get_span_context :: span_context
  attributes :: "string \<rightharpoonup> string"
  events :: "string list"
  status :: status_code

text \<open>
  A call on the structured logger: the method (\<open>logger.info\<close>, \<open>logger.error\<close>) and the
  keyword arguments. The positional message is a fixed text at every call site and is left
  out.
\<close>

datatype log_method = debug | info | warning | error

record log_call =
  level :: log_method
  kwargs :: "(string \<times> string) list"

text \<open>
  The ambient state: the result of \<open>trace.get_current_span()\<close> (\<open>None\<close> stands for a
  falsy result, the case the guard \<open>if span\<close> of both enrichers excludes), the store of
  dictionaries and the log calls made so far.
\<close>

record state =
  get_current_span :: "span option"
  dicts :: "ref \<Rightarrow> event_dict"
  log_calls :: "log_call list"

text \<open>
  Exceptions are values: a call returns \<open>Inl\<close> of the exception it raised or \<open>Inr\<close> of
  its result, next to the state it left behind.
\<close>

datatype exn = HTTPException int string | TypeError | AttributeError

section \<open>Python's \<open>format(n, "0Wx")\<close>\<close>

definition hex_digits :: string where
  "hex_digits = ''0123456789abcdef''"

fun to_hex :: "nat \<Rightarrow> string" where
  "to_hex n = (if n < 16 then [hex_digits ! n]
               else to_hex (n div 16) @ [hex_digits ! (n mod 16)])"

declare to_hex.simps [simp del]

text \<open>
  \<open>format(i, "032x")\<close> is \<open>format_0x 32 i\<close>: lowercase hexadecimal, padded with zeros
  after the sign up to the width, never truncated.
\<close>

definition zero_pad :: "nat \<Rightarrow> string \<Rightarrow> string" where
  "zero_pad width digits = replicate (width - length digits) (CHR ''0'') @ digits"

definition format_0x :: "nat \<Rightarrow> int \<Rightarrow> string" where
  "format_0x width i =
     (if i < 0 then CHR ''-'' # zero_pad (width - 1) (to_hex (nat (- i)))
      else zero_pad width (to_hex (nat i)))"



section \<open>The log-context enrichers\<close>

text \<open>\<open>event_dict[key] = value\<close> on the dictionary at reference \<open>r\<close>.\<close>

definition setitem :: "ref \<Rightarrow> string \<Rightarrow> pyval \<Rightarrow> state \<Rightarrow> state" where
  "setitem r key v s = s\<lparr>dicts := (dicts s)(r := (dicts s r)(key \<mapsto> v))\<rparr>"

text \<open>
  What the enrichers do with the object that \<open>trace.get_current_span()\<close> returned: test
  its truth value (\<open>if span\<close>: \<open>None\<close> is false, a span object is true) and call its
  methods. A method call on \<open>None\<close> raises \<open>AttributeError\<close>.
\<close>

definition truthy :: "span option \<Rightarrow> bool" where
  "truthy span = (case span of None \<Rightarrow> False | Some _ \<Rightarrow> True)"

definition call_get_span_context :: "span option \<Rightarrow> exn + span_context" where
  "call_get_span_context span =
     (case span of None \<Rightarrow> Inl AttributeError | Some sp \<Rightarrow> Inr (get_span_context sp))"

definition call_is_recording :: "span option \<Rightarrow> exn + bool" where
  "call_is_recording span =
     (case span of None \<Rightarrow> Inl AttributeError | Some sp \<Rightarrow> Inr (is_recording sp))"

text \<open>
  \<open>add_trace_info\<close> of the FastAPI example. It does not look at \<open>is_recording\<close>.
  \<open>format\<close> on an \<open>int\<close> and assignment into a \<open>dict\<close> cannot fail.
\<close>

definition add_trace_info :: "'l \<Rightarrow> 'm \<Rightarrow> ref \<Rightarrow> state \<Rightarrow> (exn + ref) \<times> state" where
  "add_trace_info logger method_name event_dict s =
     (let span = get_current_span s in
      if truthy span then
        (case call_get_span_context span of
           Inl e \<Rightarrow> (Inl e, s)
         | Inr sc \<Rightarrow>
             if trace_id sc \<noteq> 0 then
               let s1 = setitem event_dict ''trace_id'' (PStr (format_0x 32 (trace_id sc))) s;
                   s2 = setitem event_dict ''span_id'' (PStr (format_0x 16 (span_id sc))) s1
               in (Inr event_dict, s2)
             else (Inr event_dict, s))
      else (Inr event_dict, s))"

text \<open>
  \<open>add_otel_context\<close> of the multi-application example. The \<open>and\<close> of its guard calls
  \<open>is_recording\<close> only on a true span.
\<close>

definition add_otel_context :: "'l \<Rightarrow> 'm \<Rightarrow> ref \<Rightarrow> state \<Rightarrow> (exn + ref) \<times> state" where
  "add_otel_context logger method_name event_dict s =
     (let span = get_current_span s in
      if truthy span then
        (case call_is_recording span of
           Inl e \<Rightarrow> (Inl e, s)
         | Inr recording \<Rightarrow>
             if recording then
               (case call_get_span_context span of
                  Inl e \<Rightarrow> (Inl e, s)
                | Inr sc \<Rightarrow>
                    if trace_id sc \<noteq> 0 then
                      let s1 = setitem event_dict ''trace_id''
                                 (PStr (format_0x 32 (trace_id sc))) s;
                          s2 = setitem event_dict ''span_id''
                                 (PStr (format_0x 16 (span_id sc))) s1;
                          s3 = setitem event_dict ''trace_flags'' (PInt (trace_flags sc)) s2
                      in (Inr event_dict, s3)
                    else (Inr event_dict, s))
             else (Inr event_dict, s))
      else (Inr event_dict, s))"

section \<open>The simulated external service\<close>

type_synonym response = "(string \<times> string) list"

type_synonym service_function = "string \<Rightarrow> string \<Rightarrow> state \<Rightarrow> (exn + response) \<times> state"

text \<open>
  Methods called on the current span object, and a call on the logger. A span that is not
  recording ignores \<open>set_attribute\<close>, \<open>record_exception\<close> and \<open>set_status\<close>.
\<close>

definition on_span :: "(span \<Rightarrow> span) \<Rightarrow> state \<Rightarrow> state" where
  "on_span f s =
     s\<lparr>get_current_span :=
         map_option (\<lambda>sp. if is_recording sp then f sp else sp) (get_current_span s)\<rparr>"

definition set_attribute :: "string \<Rightarrow> string \<Rightarrow> state \<Rightarrow> state" where
  "set_attribute key v = on_span (\<lambda>sp. sp\<lparr>attributes := (attributes sp)(key \<mapsto> v)\<rparr>)"

definition record_exception :: "string \<Rightarrow> state \<Rightarrow> state" where
  "record_exception msg = on_span (\<lambda>sp. sp\<lparr>events := events sp @ [msg]\<rparr>)"

definition set_status :: "status_code \<Rightarrow> state \<Rightarrow> state" where
  "set_status c = on_span (\<lambda>sp. sp\<lparr>status := c\<rparr>)"

definition logger_call :: "log_method \<Rightarrow> (string \<times> string) list \<Rightarrow> state \<Rightarrow> state" where
  "logger_call lv kw s = s\<lparr>log_calls := log_calls s @ [\<lparr>level = lv, kwargs = kw\<rparr>]\<rparr>"

text \<open>
  The function that \<open>def call_external_service(service_name, operation)\<close> creates.
  Python's \<open>hash\<close> on strings (salted per process) and the clock behind
  \<open>datetime.now().isoformat()\<close> are parameters; \<open>time.sleep\<close> changes nothing in the
  state. The remainder \<open>%\<close> of Python rounds as \<open>mod\<close> does. Calling a method on a
  \<open>None\<close> span is an \<open>AttributeError\<close>.
\<close>

definition call_external_service_def ::
  "(string \<Rightarrow> int) \<Rightarrow> string \<Rightarrow> service_function" where
  "call_external_service_def hash now service_name operation s =
     (case get_current_span s of
        None \<Rightarrow> (Inl AttributeError, s)
      | Some _ \<Rightarrow>
          let s1 = set_attribute ''external.service.name'' service_name s;
              s2 = set_attribute ''external.operation'' operation s1;
              s3 = logger_call info
                     [(''external_service'', service_name), (''operation'', operation),
                      (''call_start'', now)] s2
          in if hash (service_name @ operation) mod 10 = 0 then
               let s4 = record_exception (service_name @ '' service temporarily unavailable'') s3;
                   s5 = set_status ERROR s4;
                   s6 = logger_call error
                          [(''external_service'', service_name), (''operation'', operation),
                           (''error_type'', ''service_unavailable'')] s5
               in (Inl (HTTPException 503 (service_name @ '' service unavailable'')), s6)
             else
               let s4 = logger_call info
                          [(''external_service'', service_name), (''operation'', operation),
                           (''response_status'', ''success'')] s3
               in (Inr [(''service'', service_name), (''result'', operation @ ''_completed'')], s4))"

text \<open>
  \<open>tracer.start_as_current_span(name)\<close> returns a context manager for a span of that
  name: every other use in the file is \<open>with tracer.start_as_current_span("...")\<close>. The
  decorator line \<open>@tracer.start_as_current_span\<close> above the \<open>def\<close> has no argument list, so
  the function object itself is passed as the span name and the module-level name
  \<open>call_external_service\<close> is bound to the context manager that comes back.
\<close>

datatype pyobject = Str string | Function service_function | ContextManager pyobject

definition start_as_current_span :: "pyobject \<Rightarrow> pyobject" where
  "start_as_current_span name = ContextManager name"

text \<open>
  A call with two positional arguments, as every call site of \<open>call_external_service\<close>
  makes. A function runs its body. A context manager is callable only as a decorator,
  \<open>ContextDecorator.__call__(self, func)\<close>, which takes one argument: two raise
  \<open>TypeError\<close> before any code of the body runs. A string is not callable.
\<close>

definition call2 :: "pyobject \<Rightarrow> service_function" where
  "call2 obj a b s =
     (case obj of
        Function f \<Rightarrow> f a b s
      | ContextManager _ \<Rightarrow> (Inl TypeError, s)
      | Str _ \<Rightarrow> (Inl TypeError, s))"

definition call_external_service :: "(string \<Rightarrow> int) \<Rightarrow> string \<Rightarrow> service_function" where
  "call_external_service hash now =
     call2 (start_as_current_span (Function (call_external_service_def hash now)))"

section \<open>Exporter configuration\<close>

text \<open>\<open>os.getenv(key, default)\<close> over an environment.\<close>

definition getenv :: "(string \<rightharpoonup> string) \<Rightarrow> string \<Rightarrow> string \<Rightarrow> string" where
  "getenv env key fallback = (case env key of None \<Rightarrow> fallback | Some v \<Rightarrow> v)"

definition OTEL_COLLECTOR_ENDPOINT :: "(string \<rightharpoonup> string) \<Rightarrow> string" where
  "OTEL_COLLECTOR_ENDPOINT env = getenv env ''OTEL_EXPORTER_OTLP_ENDPOINT'' ''http://localhost:4317''"

record batch_processor =
  endpoint :: string
  insecure :: bool
  max_queue_size :: nat
  max_export_batch_size :: nat
  export_timeout_millis :: nat

text \<open>The \<open>BatchSpanProcessor\<close> over \<open>otlp_span_exporter\<close>.\<close>

definition span_processor :: "(string \<rightharpoonup> string) \<Rightarrow> batch_processor" where
  "span_processor env =
     \<lparr>endpoint = OTEL_COLLECTOR_ENDPOINT env, insecure = True,
      max_queue_size = 512, max_export_batch_size = 128, export_timeout_millis = 30000\<rparr>"

text \<open>The \<open>BatchLogRecordProcessor\<close> over \<open>otlp_log_exporter\<close>.\<close>

definition log_record_processor :: "(string \<rightharpoonup> string) \<Rightarrow> batch_processor" where
  "log_record_processor env =
     \<lparr>endpoint = OTEL_COLLECTOR_ENDPOINT env, insecure = True,
      max_queue_size = 512, max_export_batch_size = 128, export_timeout_millis = 30000\<rparr>"

section \<open>Example states\<close>

text \<open>The identifiers of the W3C trace-context example header, sampled.\<close>

definition w3c_context :: span_context where
  "w3c_context =
     \<lparr>trace_id = 0x0af7651916cd43dd8448eb211c80319c, span_id = 0xb7ad6b7169203331,
      trace_flags = 1\<rparr>"

definition recording_span :: span where
  "recording_span =
     \<lparr>is_recording = True, get_span_context = w3c_context, attributes = Map.empty,
      events = [], status = UNSET\<rparr>"

text \<open>
  A span that is not recording but carries a valid context: what the tracer hands out under
  a parent whose trace flags say "not sampled".
\<close>

definition unsampled_span :: span where
  "unsampled_span =
     \<lparr>is_recording = False, get_span_context = w3c_context\<lparr>trace_flags := 0\<rparr>,
      attributes = Map.empty, events = [], status = UNSET\<rparr>"


text \<open>The tracing library's invalid span: not recording, all identifiers zero.\<close>

definition invalid_span :: span where
  "invalid_span =
     \<lparr>is_recording = False,
      get_span_context = \<lparr>trace_id = 0, span_id = 0, trace_flags = 0\<rparr>,
      attributes = Map.empty, events = [], status = UNSET\<rparr>"

text \<open>A record whose caller passed a \<open>trace_id\<close> keyword, and one whose caller did not.\<close>

definition caller_record :: event_dict where
  "caller_record = [''event'' \<mapsto> PStr ''done'', ''trace_id'' \<mapsto> PStr ''caller'']"

definition plain_record :: event_dict where
  "plain_record = [''event'' \<mapsto> PStr ''done'']"

text \<open>A state in which every reference holds the record \<open>d\<close>.\<close>

definition ambient :: "span option \<Rightarrow> event_dict \<Rightarrow> state" where
  "ambient cur d = \<lparr>get_current_span = cur, dicts = (\<lambda>_. d), log_calls = []\<rparr>"

definition constant_hash :: "int \<Rightarrow> string \<Rightarrow> int" where
  "constant_hash h _ = h"

section \<open>Formatting lemmas\<close>












lemma format_w3c_trace_id:
  "format_0x 32 (trace_id w3c_context) = ''0af7651916cd43dd8448eb211c80319c''"
  by (simp add: w3c_context_def format_0x_def zero_pad_def to_hex.simps hex_digits_def)

lemma format_w3c_span_id:
  "format_0x 16 (span_id w3c_context) = ''b7ad6b7169203331''"
  by (simp add: w3c_context_def format_0x_def zero_pad_def to_hex.simps hex_digits_def)


section \<open>What each enricher returns\<close>

lemma add_trace_info_enriched:
  assumes "get_current_span s = Some sp" and "trace_id (get_span_context sp) \<noteq> 0"
  shows "add_trace_info l m r s =
    (Inr r, s\<lparr>dicts := (dicts s)(r := (dicts s r)
           (''trace_id'' \<mapsto> PStr (format_0x 32 (trace_id (get_span_context sp))),
            ''span_id'' \<mapsto> PStr (format_0x 16 (span_id (get_span_context sp)))))\<rparr>)"
  using assms
  by (simp add: add_trace_info_def truthy_def call_get_span_context_def setitem_def Let_def)

lemma add_trace_info_unchanged:
  assumes "\<And>sp. get_current_span s = Some sp \<Longrightarrow> trace_id (get_span_context sp) = 0"
  shows "add_trace_info l m r s = (Inr r, s)"
  using assms
  by (simp add: add_trace_info_def truthy_def call_get_span_context_def Let_def
      split: option.splits)

lemma add_otel_context_enriched:
  assumes "get_current_span s = Some sp" and "is_recording sp"
    and "trace_id (get_span_context sp) \<noteq> 0"
  shows "add_otel_context l m r s =
    (Inr r, s\<lparr>dicts := (dicts s)(r := (dicts s r)
           (''trace_id'' \<mapsto> PStr (format_0x 32 (trace_id (get_span_context sp))),
            ''span_id'' \<mapsto> PStr (format_0x 16 (span_id (get_span_context sp))),
            ''trace_flags'' \<mapsto> PInt (trace_flags (get_span_context sp))))\<rparr>)"
  using assms
  by (simp add: add_otel_context_def truthy_def call_get_span_context_def
      call_is_recording_def setitem_def Let_def)

lemma add_otel_context_unchanged:
  assumes "\<And>sp. get_current_span s = Some sp \<Longrightarrow>
             \<not> is_recording sp \<or> trace_id (get_span_context sp) = 0"
  shows "add_otel_context l m r s = (Inr r, s)"
  using assms
  by (auto simp: add_otel_context_def truthy_def call_get_span_context_def
      call_is_recording_def Let_def split: option.splits)

lemma add_trace_info_fst: "fst (add_trace_info l m r s) = Inr r"
  by (simp add: add_trace_info_def truthy_def call_get_span_context_def Let_def
      split: option.splits)

lemma add_otel_context_fst: "fst (add_otel_context l m r s) = Inr r"
  by (simp add: add_otel_context_def truthy_def call_get_span_context_def
      call_is_recording_def Let_def split: option.splits)

lemma add_trace_info_span: "get_current_span (snd (add_trace_info l m r s)) = get_current_span s"
  by (simp add: add_trace_info_def truthy_def call_get_span_context_def setitem_def Let_def
      split: option.splits)

lemma add_otel_context_span:
  "get_current_span (snd (add_otel_context l m r s)) = get_current_span s"
  by (simp add: add_otel_context_def truthy_def call_get_span_context_def
      call_is_recording_def setitem_def Let_def split: option.splits)

lemma add_trace_info_keys:
  "dicts (snd (add_trace_info l m r s)) r' k = dicts s r' k
   \<or> (r' = r \<and> k \<in> {''trace_id'', ''span_id''}
       \<and> dicts (snd (add_trace_info l m r s)) r' k \<noteq> None)"
  by (simp add: add_trace_info_def truthy_def call_get_span_context_def setitem_def Let_def
      split: option.splits)

lemma add_otel_context_keys:
  "dicts (snd (add_otel_context l m r s)) r' k = dicts s r' k
   \<or> (r' = r \<and> k \<in> {''trace_id'', ''span_id'', ''trace_flags''}
       \<and> dicts (snd (add_otel_context l m r s)) r' k \<noteq> None)"
  by (simp add: add_otel_context_def truthy_def call_get_span_context_def
      call_is_recording_def setitem_def Let_def split: option.splits)

section \<open>Facts about the example states\<close>

lemma recording_state_facts:
  "get_current_span (ambient (Some recording_span) d) = Some recording_span"
  "is_recording recording_span"
  "trace_id (get_span_context recording_span) \<noteq> 0"
  by (simp_all add: ambient_def recording_span_def w3c_context_def)


lemma recording_span_formats:
  "format_0x 32 (trace_id (get_span_context recording_span))
     = ''0af7651916cd43dd8448eb211c80319c''"
  "format_0x 16 (span_id (get_span_context recording_span)) = ''b7ad6b7169203331''"
  "trace_flags (get_span_context recording_span) = 1"
  using format_w3c_trace_id format_w3c_span_id
  by (simp_all add: recording_span_def w3c_context_def)

lemma unsampled_state_facts:
  "get_current_span (ambient (Some unsampled_span) d) = Some unsampled_span"
  "\<not> is_recording unsampled_span"
  "trace_id (get_span_context unsampled_span) \<noteq> 0"
  "format_0x 32 (trace_id (get_span_context unsampled_span))
     = ''0af7651916cd43dd8448eb211c80319c''"
  "format_0x 16 (span_id (get_span_context unsampled_span)) = ''b7ad6b7169203331''"
  using format_w3c_trace_id format_w3c_span_id
  by (simp_all add: ambient_def unsampled_span_def w3c_context_def)


lemma no_span_state_facts:
  "get_current_span (ambient None d) = None"
  "dicts (ambient cur d) r = d"
  by (simp_all add: ambient_def)

lemma invalid_span_facts:
  "get_current_span (ambient (Some invalid_span) d) = Some invalid_span"
  "trace_id (get_span_context invalid_span) = 0"
  "\<not> is_recording invalid_span"
  by (simp_all add: ambient_def invalid_span_def)

lemma record_lookups:
  "plain_record ''trace_id'' = None" "plain_record ''span_id'' = None"
  "plain_record ''trace_flags'' = None" "plain_record ''event'' = Some (PStr ''done'')"
  "caller_record ''trace_id'' = Some (PStr ''caller'')"
  "caller_record ''event'' = Some (PStr ''done'')"
  by (simp_all add: plain_record_def caller_record_def)

section \<open>The enrichers' contract\<close>




text \<open>
  C1, as stated, fails for \<open>add_trace_info\<close>: under a span that is not recording but
  has a non-zero trace identifier, it still adds both fields.
\<close>

theorem add_trace_info_enriches_unsampled_span:
  "get_current_span (ambient (Some unsampled_span) plain_record) = Some unsampled_span
   \<and> \<not> is_recording unsampled_span
   \<and> dicts (ambient (Some unsampled_span) plain_record) 0 ''trace_id'' = None
   \<and> dicts (snd (add_trace_info () () 0 (ambient (Some unsampled_span) plain_record))) 0
        ''trace_id'' = Some (PStr ''0af7651916cd43dd8448eb211c80319c'')
   \<and> dicts (snd (add_trace_info () () 0 (ambient (Some unsampled_span) plain_record))) 0
        ''span_id'' = Some (PStr ''b7ad6b7169203331'')"
  by (simp add: add_trace_info_enriched [OF unsampled_state_facts(1,3)]
      unsampled_state_facts no_span_state_facts record_lookups)

text \<open>
  C1, amended. Each enricher returns the record it was given. \<open>add_trace_info\<close> adds
  \<open>trace_id\<close> and \<open>span_id\<close> exactly when the current span, recording or not, has a
  non-zero trace identifier; \<open>add_otel_context\<close> adds them (and \<open>trace_flags\<close>) exactly
  when the current span is recording and has a non-zero trace identifier. Otherwise the
  state, and with it the record, is unchanged.
\<close>

theorem enrichers_add_ids_when_span_qualifies:
  "fst (add_trace_info l m r s) = Inr r \<and> fst (add_otel_context l m r s) = Inr r
   \<and> (\<forall>sp. get_current_span s = Some sp \<and> trace_id (get_span_context sp) \<noteq> 0 \<longrightarrow>
         snd (add_trace_info l m r s) = s\<lparr>dicts := (dicts s)(r := (dicts s r)
           (''trace_id'' \<mapsto> PStr (format_0x 32 (trace_id (get_span_context sp))),
            ''span_id'' \<mapsto> PStr (format_0x 16 (span_id (get_span_context sp)))))\<rparr>)
   \<and> ((\<nexists>sp. get_current_span s = Some sp \<and> trace_id (get_span_context sp) \<noteq> 0) \<longrightarrow>
         snd (add_trace_info l m r s) = s)
   \<and> (\<forall>sp. get_current_span s = Some sp \<and> is_recording sp
           \<and> trace_id (get_span_context sp) \<noteq> 0 \<longrightarrow>
         snd (add_otel_context l m r s) = s\<lparr>dicts := (dicts s)(r := (dicts s r)
           (''trace_id'' \<mapsto> PStr (format_0x 32 (trace_id (get_span_context sp))),
            ''span_id'' \<mapsto> PStr (format_0x 16 (span_id (get_span_context sp))),
            ''trace_flags'' \<mapsto> PInt (trace_flags (get_span_context sp))))\<rparr>)
   \<and> ((\<nexists>sp. get_current_span s = Some sp \<and> is_recording sp
           \<and> trace_id (get_span_context sp) \<noteq> 0) \<longrightarrow>
         snd (add_otel_context l m r s) = s)"
proof (intro conjI allI impI)
  show "fst (add_trace_info l m r s) = Inr r" by (rule add_trace_info_fst)
  show "fst (add_otel_context l m r s) = Inr r" by (rule add_otel_context_fst)
next
  fix sp assume "get_current_span s = Some sp \<and> trace_id (get_span_context sp) \<noteq> 0"
  then show "snd (add_trace_info l m r s) = s\<lparr>dicts := (dicts s)(r := (dicts s r)
           (''trace_id'' \<mapsto> PStr (format_0x 32 (trace_id (get_span_context sp))),
            ''span_id'' \<mapsto> PStr (format_0x 16 (span_id (get_span_context sp)))))\<rparr>"
    by (simp add: add_trace_info_enriched)
next
  assume "\<nexists>sp. get_current_span s = Some sp \<and> trace_id (get_span_context sp) \<noteq> 0"
  then have "add_trace_info l m r s = (Inr r, s)" by (intro add_trace_info_unchanged) blast
  then show "snd (add_trace_info l m r s) = s" by simp
next
  fix sp assume "get_current_span s = Some sp \<and> is_recording sp
           \<and> trace_id (get_span_context sp) \<noteq> 0"
  then show "snd (add_otel_context l m r s) = s\<lparr>dicts := (dicts s)(r := (dicts s r)
           (''trace_id'' \<mapsto> PStr (format_0x 32 (trace_id (get_span_context sp))),
            ''span_id'' \<mapsto> PStr (format_0x 16 (span_id (get_span_context sp))),
            ''trace_flags'' \<mapsto> PInt (trace_flags (get_span_context sp))))\<rparr>"
    by (simp add: add_otel_context_enriched)
next
  assume "\<nexists>sp. get_current_span s = Some sp \<and> is_recording sp
           \<and> trace_id (get_span_context sp) \<noteq> 0"
  then have "add_otel_context l m r s = (Inr r, s)" by (intro add_otel_context_unchanged) blast
  then show "snd (add_otel_context l m r s) = s" by simp
qed

theorem enrichers_add_ids_when_span_qualifies_witness:
  "get_current_span (ambient (Some recording_span) plain_record) = Some recording_span
   \<and> is_recording recording_span \<and> trace_id (get_span_context recording_span) \<noteq> 0
   \<and> dicts (snd (add_trace_info () () 0 (ambient (Some recording_span) plain_record))) 0
        ''trace_id'' = Some (PStr ''0af7651916cd43dd8448eb211c80319c'')
   \<and> dicts (snd (add_otel_context () () 0 (ambient (Some recording_span) plain_record))) 0
        ''span_id'' = Some (PStr ''b7ad6b7169203331'')
   \<and> (\<nexists>sp. get_current_span (ambient (Some unsampled_span) plain_record) = Some sp
          \<and> is_recording sp \<and> trace_id (get_span_context sp) \<noteq> 0)
   \<and> snd (add_otel_context () () 0 (ambient (Some unsampled_span) plain_record))
        = ambient (Some unsampled_span) plain_record
   \<and> (\<nexists>sp. get_current_span (ambient None plain_record) = Some sp
          \<and> trace_id (get_span_context sp) \<noteq> 0)
   \<and> snd (add_trace_info () () 0 (ambient None plain_record)) = ambient None plain_record"
proof -
  note t = enrichers_add_ids_when_span_qualifies [where l = "()" and m = "()" and r = 0]
  have a: "\<nexists>sp. get_current_span (ambient (Some unsampled_span) plain_record) = Some sp
          \<and> is_recording sp \<and> trace_id (get_span_context sp) \<noteq> 0"
    by (simp add: unsampled_state_facts)
  have b: "\<nexists>sp. get_current_span (ambient None plain_record) = Some sp
          \<and> trace_id (get_span_context sp) \<noteq> 0"
    by (simp add: no_span_state_facts)
  have c: "get_current_span (ambient (Some recording_span) plain_record) = Some recording_span
      \<and> trace_id (get_span_context recording_span) \<noteq> 0"
    by (simp add: recording_state_facts)
  have d: "get_current_span (ambient (Some recording_span) plain_record) = Some recording_span
      \<and> is_recording recording_span \<and> trace_id (get_span_context recording_span) \<noteq> 0"
    by (simp add: recording_state_facts)
  from t [of "ambient (Some recording_span) plain_record"] c
  have e: "snd (add_trace_info () () 0 (ambient (Some recording_span) plain_record)) =
      (ambient (Some recording_span) plain_record)\<lparr>dicts :=
        (dicts (ambient (Some recording_span) plain_record))(0 :=
          (dicts (ambient (Some recording_span) plain_record) 0)
           (''trace_id'' \<mapsto> PStr (format_0x 32 (trace_id (get_span_context recording_span))),
            ''span_id'' \<mapsto> PStr (format_0x 16 (span_id (get_span_context recording_span)))))\<rparr>"
    by blast
  from t [of "ambient (Some recording_span) plain_record"] d
  have f: "snd (add_otel_context () () 0 (ambient (Some recording_span) plain_record)) =
      (ambient (Some recording_span) plain_record)\<lparr>dicts :=
        (dicts (ambient (Some recording_span) plain_record))(0 :=
          (dicts (ambient (Some recording_span) plain_record) 0)
           (''trace_id'' \<mapsto> PStr (format_0x 32 (trace_id (get_span_context recording_span))),
            ''span_id'' \<mapsto> PStr (format_0x 16 (span_id (get_span_context recording_span))),
            ''trace_flags'' \<mapsto> PInt (trace_flags (get_span_context recording_span))))\<rparr>"
    by blast
  from t [of "ambient (Some unsampled_span) plain_record"] a
  have g: "snd (add_otel_context () () 0 (ambient (Some unsampled_span) plain_record))
        = ambient (Some unsampled_span) plain_record" by blast
  from t [of "ambient None plain_record"] b
  have h: "snd (add_trace_info () () 0 (ambient None plain_record)) = ambient None plain_record"
    by blast
  have e': "dicts (snd (add_trace_info () () 0 (ambient (Some recording_span) plain_record))) 0
        ''trace_id'' = Some (PStr ''0af7651916cd43dd8448eb211c80319c'')"
    by (simp add: e recording_span_formats)
  have f': "dicts (snd (add_otel_context () () 0 (ambient (Some recording_span) plain_record))) 0
        ''span_id'' = Some (PStr ''b7ad6b7169203331'')"
    by (simp add: f recording_span_formats)
  from a b d e' f' g h show ?thesis by blast
qed

text \<open>
  C3, as stated, fails: with no current span the enrichers hand the record back as it
  came, and a record whose caller passed a \<open>trace_id\<close> keyword still has that field.
  This holds when the lookup yields nothing and when it yields the invalid span.
\<close>

theorem no_span_keeps_caller_trace_id:
  "get_current_span (ambient None caller_record) = None
   \<and> dicts (snd (add_trace_info () () 0 (ambient None caller_record))) 0 ''trace_id''
        = Some (PStr ''caller'')
   \<and> dicts (snd (add_otel_context () () 0 (ambient None caller_record))) 0 ''trace_id''
        = Some (PStr ''caller'')
   \<and> get_current_span (ambient (Some invalid_span) caller_record) = Some invalid_span
   \<and> trace_id (get_span_context invalid_span) = 0
   \<and> dicts (snd (add_trace_info () () 0 (ambient (Some invalid_span) caller_record))) 0
        ''trace_id'' = Some (PStr ''caller'')
   \<and> dicts (snd (add_otel_context () () 0 (ambient (Some invalid_span) caller_record))) 0
        ''trace_id'' = Some (PStr ''caller'')"
proof -
  have a: "add_trace_info () () 0 (ambient None caller_record) = (Inr 0, ambient None caller_record)"
    by (intro add_trace_info_unchanged) (simp add: no_span_state_facts)
  have b: "add_otel_context () () 0 (ambient None caller_record) = (Inr 0, ambient None caller_record)"
    by (intro add_otel_context_unchanged) (simp add: no_span_state_facts)
  have c: "add_trace_info () () 0 (ambient (Some invalid_span) caller_record)
      = (Inr 0, ambient (Some invalid_span) caller_record)"
    by (intro add_trace_info_unchanged) (simp add: invalid_span_facts)
  have d: "add_otel_context () () 0 (ambient (Some invalid_span) caller_record)
      = (Inr 0, ambient (Some invalid_span) caller_record)"
    by (intro add_otel_context_unchanged) (simp add: invalid_span_facts)
  show ?thesis
    by (simp add: a b c d no_span_state_facts invalid_span_facts record_lookups)
qed

text \<open>
  C3, amended. With no active span (the lookup yields no span, or a span whose context has
  trace identifier 0) both enrichers return the record and the state unchanged; so a
  record that came without a \<open>trace_id\<close> or \<open>span_id\<close> field leaves without it.
\<close>

theorem no_span_leaves_record_unchanged:
  assumes "get_current_span s = None
           \<or> (\<exists>sp. get_current_span s = Some sp \<and> trace_id (get_span_context sp) = 0)"
  shows "add_trace_info l m r s = (Inr r, s) \<and> add_otel_context l m r s = (Inr r, s)
         \<and> (\<forall>k \<in> {''trace_id'', ''span_id''}. dicts s r k = None \<longrightarrow>
               dicts (snd (add_trace_info l m r s)) r k = None
               \<and> dicts (snd (add_otel_context l m r s)) r k = None)"
proof -
  from assms have a: "add_trace_info l m r s = (Inr r, s)"
    by (intro add_trace_info_unchanged) auto
  from assms have b: "add_otel_context l m r s = (Inr r, s)"
    by (intro add_otel_context_unchanged) auto
  from a b show ?thesis by simp
qed

theorem no_span_leaves_record_unchanged_witness:
  "get_current_span (ambient None plain_record) = None
   \<and> add_trace_info () () 0 (ambient None plain_record) = (Inr 0, ambient None plain_record)
   \<and> add_otel_context () () 0 (ambient None plain_record) = (Inr 0, ambient None plain_record)
   \<and> dicts (ambient None plain_record) 0 ''trace_id'' = None
   \<and> dicts (snd (add_trace_info () () 0 (ambient None plain_record))) 0 ''trace_id'' = None
   \<and> dicts (snd (add_otel_context () () 0 (ambient None plain_record))) 0 ''span_id'' = None
   \<and> get_current_span (ambient (Some invalid_span) plain_record) = Some invalid_span
   \<and> trace_id (get_span_context invalid_span) = 0
   \<and> add_trace_info () () 0 (ambient (Some invalid_span) plain_record)
        = (Inr 0, ambient (Some invalid_span) plain_record)"
proof -
  have n: "get_current_span (ambient None plain_record) = None
      \<or> (\<exists>sp. get_current_span (ambient None plain_record) = Some sp
            \<and> trace_id (get_span_context sp) = 0)"
    by (simp add: no_span_state_facts)
  have i: "get_current_span (ambient (Some invalid_span) plain_record) = None
      \<or> (\<exists>sp. get_current_span (ambient (Some invalid_span) plain_record) = Some sp
            \<and> trace_id (get_span_context sp) = 0)"
    by (simp add: invalid_span_facts)
  have p: "dicts (ambient None plain_record) 0 ''trace_id'' = None"
    "dicts (ambient None plain_record) 0 ''span_id'' = None"
    by (simp_all add: no_span_state_facts record_lookups)
  from no_span_leaves_record_unchanged [OF n, where l = "()" and m = "()" and r = 0]
    no_span_leaves_record_unchanged [OF i, where l = "()" and m = "()" and r = 0]
    p invalid_span_facts(1,2) no_span_state_facts(1)
  show ?thesis by simp
qed

text \<open>
  A method call on a missing span does raise; the enrichers' guards keep them from making
  one.
\<close>

lemma method_call_on_None_raises:
  "call_get_span_context None = Inl AttributeError"
  "call_is_recording None = Inl AttributeError"
  by (simp_all add: call_get_span_context_def call_is_recording_def)

text \<open>
  C4. The enrichers never raise: in every ambient state (no span, a span that is not
  recording, a recording span with zero or non-zero trace identifier) and for every
  record, each returns normally, and what it returns is the record it was given. With no
  active span (nothing current, or a span context with trace identifier 0) the call is a
  no-op: the state is left as it was.
\<close>

theorem enrichers_never_raise:
  "fst (add_trace_info l m r s) = Inr r \<and> fst (add_otel_context l m r s) = Inr r
   \<and> (get_current_span s = None
        \<or> (\<exists>sp. get_current_span s = Some sp \<and> trace_id (get_span_context sp) = 0) \<longrightarrow>
        add_trace_info l m r s = (Inr r, s) \<and> add_otel_context l m r s = (Inr r, s))"
proof (intro conjI impI)
  show "fst (add_trace_info l m r s) = Inr r" by (rule add_trace_info_fst)
  show "fst (add_otel_context l m r s) = Inr r" by (rule add_otel_context_fst)
next
  assume "get_current_span s = None
        \<or> (\<exists>sp. get_current_span s = Some sp \<and> trace_id (get_span_context sp) = 0)"
  then show "add_trace_info l m r s = (Inr r, s)"
    by (intro add_trace_info_unchanged) auto
next
  assume "get_current_span s = None
        \<or> (\<exists>sp. get_current_span s = Some sp \<and> trace_id (get_span_context sp) = 0)"
  then show "add_otel_context l m r s = (Inr r, s)"
    by (intro add_otel_context_unchanged) auto
qed

theorem enrichers_never_raise_witness:
  "get_current_span (ambient None caller_record) = None
   \<and> add_trace_info () () 0 (ambient None caller_record) = (Inr 0, ambient None caller_record)
   \<and> add_otel_context () () 0 (ambient None caller_record) = (Inr 0, ambient None caller_record)
   \<and> get_current_span (ambient (Some invalid_span) caller_record) = Some invalid_span
   \<and> trace_id (get_span_context invalid_span) = 0
   \<and> add_trace_info () () 0 (ambient (Some invalid_span) caller_record)
        = (Inr 0, ambient (Some invalid_span) caller_record)
   \<and> add_otel_context () () 0 (ambient (Some invalid_span) caller_record)
        = (Inr 0, ambient (Some invalid_span) caller_record)
   \<and> fst (add_trace_info () () 0 (ambient (Some unsampled_span) caller_record)) = Inr 0
   \<and> fst (add_otel_context () () 0 (ambient (Some unsampled_span) caller_record)) = Inr 0
   \<and> fst (add_trace_info () () 0 (ambient (Some recording_span) caller_record)) = Inr 0
   \<and> fst (add_otel_context () () 0 (ambient (Some recording_span) caller_record)) = Inr 0"
proof -
  have n: "get_current_span (ambient None caller_record) = None
      \<or> (\<exists>sp. get_current_span (ambient None caller_record) = Some sp
            \<and> trace_id (get_span_context sp) = 0)"
    by (simp add: no_span_state_facts)
  have i: "get_current_span (ambient (Some invalid_span) caller_record) = None
      \<or> (\<exists>sp. get_current_span (ambient (Some invalid_span) caller_record) = Some sp
            \<and> trace_id (get_span_context sp) = 0)"
    by (simp add: invalid_span_facts)
  note tn = enrichers_never_raise [of "()" "()" 0 "ambient None caller_record",
      THEN conjunct2, THEN conjunct2, THEN mp, OF n]
  note ti = enrichers_never_raise [of "()" "()" 0 "ambient (Some invalid_span) caller_record",
      THEN conjunct2, THEN conjunct2, THEN mp, OF i]
  note tu = enrichers_never_raise [of "()" "()" 0 "ambient (Some unsampled_span) caller_record"]
  note tr = enrichers_never_raise [of "()" "()" 0 "ambient (Some recording_span) caller_record"]
  show ?thesis
    by (intro conjI)
      (rule no_span_state_facts(1) invalid_span_facts(1) invalid_span_facts(2)
        tn [THEN conjunct1] tn [THEN conjunct2] ti [THEN conjunct1] ti [THEN conjunct2]
        tu [THEN conjunct1] tu [THEN conjunct2, THEN conjunct1]
        tr [THEN conjunct1] tr [THEN conjunct2, THEN conjunct1])+
qed

text \<open>
  C5. Enrichment is idempotent: under a fixed current span, running an enricher on the
  record it returned gives the same record and state again. And it only reads the span: the
  current span, with its context, is the same after the call as before.
\<close>

theorem enrichers_idempotent_and_read_only:
  "fst (add_trace_info l m r s) = Inr r
   \<and> add_trace_info l m r (snd (add_trace_info l m r s)) = add_trace_info l m r s
   \<and> fst (add_otel_context l m r s) = Inr r
   \<and> add_otel_context l m r (snd (add_otel_context l m r s)) = add_otel_context l m r s
   \<and> get_current_span (snd (add_trace_info l m r s)) = get_current_span s
   \<and> get_current_span (snd (add_otel_context l m r s)) = get_current_span s"
proof (intro conjI)
  show "fst (add_trace_info l m r s) = Inr r" by (rule add_trace_info_fst)
  show "fst (add_otel_context l m r s) = Inr r" by (rule add_otel_context_fst)
  show "add_trace_info l m r (snd (add_trace_info l m r s)) = add_trace_info l m r s"
    by (simp add: add_trace_info_def truthy_def call_get_span_context_def setitem_def Let_def
        split: option.splits)
  show "add_otel_context l m r (snd (add_otel_context l m r s)) = add_otel_context l m r s"
    by (simp add: add_otel_context_def truthy_def call_get_span_context_def
        call_is_recording_def setitem_def Let_def split: option.splits)
  show "get_current_span (snd (add_trace_info l m r s)) = get_current_span s"
    by (rule add_trace_info_span)
  show "get_current_span (snd (add_otel_context l m r s)) = get_current_span s"
    by (rule add_otel_context_span)
qed

theorem enrichers_idempotent_and_read_only_witness:
  "fst (add_trace_info () () 0 (ambient (Some recording_span) caller_record)) = Inr 0
   \<and> add_trace_info () () 0
       (snd (add_trace_info () () 0 (ambient (Some recording_span) caller_record)))
     = add_trace_info () () 0 (ambient (Some recording_span) caller_record)
   \<and> fst (add_otel_context () () 0 (ambient (Some recording_span) caller_record)) = Inr 0
   \<and> add_otel_context () () 0
       (snd (add_otel_context () () 0 (ambient (Some recording_span) caller_record)))
     = add_otel_context () () 0 (ambient (Some recording_span) caller_record)
   \<and> get_current_span (snd (add_trace_info () () 0 (ambient (Some recording_span) caller_record)))
     = Some recording_span
   \<and> get_current_span (snd (add_otel_context () () 0 (ambient (Some recording_span) caller_record)))
     = Some recording_span"
  using enrichers_idempotent_and_read_only
      [of "()" "()" 0 "ambient (Some recording_span) caller_record"]
    recording_state_facts(1) [of caller_record]
  by simp

text \<open>
  C6. The enrichers never remove a field: every key of the record before the call is a key
  of the record that the call returns, whatever the ambient span.
\<close>

theorem enrichers_keep_every_key:
  assumes "k \<in> dom (dicts s r)"
  shows "fst (add_trace_info l m r s) = Inr r
       \<and> k \<in> dom (dicts (snd (add_trace_info l m r s)) r)
       \<and> fst (add_otel_context l m r s) = Inr r
       \<and> k \<in> dom (dicts (snd (add_otel_context l m r s)) r)"
proof -
  from assms have "dicts s r k \<noteq> None" by (simp add: dom_def)
  with add_trace_info_keys [of l m r s r k] add_otel_context_keys [of l m r s r k]
  have "dicts (snd (add_trace_info l m r s)) r k \<noteq> None
      \<and> dicts (snd (add_otel_context l m r s)) r k \<noteq> None"
    by auto
  then show ?thesis
    by (simp add: add_trace_info_fst add_otel_context_fst dom_def)
qed

theorem enrichers_keep_every_key_witness:
  "''event'' \<in> dom (dicts (ambient (Some recording_span) caller_record) 0)
   \<and> fst (add_trace_info () () 0 (ambient (Some recording_span) caller_record)) = Inr 0
   \<and> ''event'' \<in> dom (dicts (snd (add_trace_info () () 0
         (ambient (Some recording_span) caller_record))) 0)
   \<and> fst (add_otel_context () () 0 (ambient (Some recording_span) caller_record)) = Inr 0
   \<and> ''event'' \<in> dom (dicts (snd (add_otel_context () () 0
         (ambient (Some recording_span) caller_record))) 0)"
proof -
  have h: "''event'' \<in> dom (dicts (ambient (Some recording_span) caller_record) 0)"
    by (simp add: no_span_state_facts(2) record_lookups dom_def)
  note t = enrichers_keep_every_key [OF h, of "()" "()"]
  show ?thesis
    by (intro conjI)
      (rule h t [THEN conjunct1] t [THEN conjunct2, THEN conjunct1]
        t [THEN conjunct2, THEN conjunct2, THEN conjunct1]
        t [THEN conjunct2, THEN conjunct2, THEN conjunct2])+
qed

text \<open>
  C7. Only \<open>add_otel_context\<close> injects trace flags: when it enriches a record it sets
  \<open>trace_flags\<close> to the flags of the current span context. \<open>add_trace_info\<close> leaves
  \<open>trace_flags\<close>, and every key other than \<open>trace_id\<close> and \<open>span_id\<close>, as it found it,
  in every state.
\<close>

theorem only_add_otel_context_sets_trace_flags:
  "(\<forall>sp. get_current_span s = Some sp \<and> is_recording sp
          \<and> trace_id (get_span_context sp) \<noteq> 0 \<longrightarrow>
        dicts (snd (add_otel_context l m r s)) r ''trace_flags''
          = Some (PInt (trace_flags (get_span_context sp))))
   \<and> dicts (snd (add_trace_info l m r s)) r ''trace_flags'' = dicts s r ''trace_flags''
   \<and> (\<forall>k. k \<noteq> ''trace_id'' \<and> k \<noteq> ''span_id'' \<longrightarrow>
        dicts (snd (add_trace_info l m r s)) r k = dicts s r k)"
proof (intro conjI allI impI)
  fix sp assume "get_current_span s = Some sp \<and> is_recording sp
          \<and> trace_id (get_span_context sp) \<noteq> 0"
  then show "dicts (snd (add_otel_context l m r s)) r ''trace_flags''
          = Some (PInt (trace_flags (get_span_context sp)))"
    by (simp add: add_otel_context_enriched)
next
  show "dicts (snd (add_trace_info l m r s)) r ''trace_flags'' = dicts s r ''trace_flags''"
    using add_trace_info_keys [of l m r s r "''trace_flags''"] by simp
next
  fix k :: string assume "k \<noteq> ''trace_id'' \<and> k \<noteq> ''span_id''"
  then show "dicts (snd (add_trace_info l m r s)) r k = dicts s r k"
    using add_trace_info_keys [of l m r s r k] by simp
qed

theorem only_add_otel_context_sets_trace_flags_witness:
  "get_current_span (ambient (Some recording_span) plain_record) = Some recording_span
   \<and> is_recording recording_span \<and> trace_id (get_span_context recording_span) \<noteq> 0
   \<and> dicts (snd (add_otel_context () () 0 (ambient (Some recording_span) plain_record))) 0
        ''trace_flags'' = Some (PInt 1)
   \<and> dicts (snd (add_trace_info () () 0 (ambient (Some recording_span) plain_record))) 0
        ''trace_flags'' = None
   \<and> dicts (snd (add_trace_info () () 0 (ambient (Some recording_span) plain_record))) 0
        ''event'' = Some (PStr ''done'')"
proof -
  note t = only_add_otel_context_sets_trace_flags
    [of "ambient (Some recording_span) plain_record" "()" "()" 0]
  have h: "get_current_span (ambient (Some recording_span) plain_record) = Some recording_span
      \<and> is_recording recording_span \<and> trace_id (get_span_context recording_span) \<noteq> 0"
    by (simp add: recording_state_facts)
  have a: "dicts (snd (add_otel_context () () 0
        (ambient (Some recording_span) plain_record))) 0 ''trace_flags''
      = Some (PInt (trace_flags (get_span_context recording_span)))"
    by (rule t [THEN conjunct1, THEN spec, THEN mp, OF h])
  have b: "dicts (snd (add_trace_info () () 0
        (ambient (Some recording_span) plain_record))) 0 ''trace_flags''
      = dicts (ambient (Some recording_span) plain_record) 0 ''trace_flags''"
    by (rule t [THEN conjunct2, THEN conjunct1])
  have e: "''event'' \<noteq> ''trace_id'' \<and> ''event'' \<noteq> ''span_id''" by simp
  have c: "dicts (snd (add_trace_info () () 0
        (ambient (Some recording_span) plain_record))) 0 ''event''
      = dicts (ambient (Some recording_span) plain_record) 0 ''event''"
    by (rule t [THEN conjunct2, THEN conjunct2, THEN spec, THEN mp, OF e])
  have a': "dicts (snd (add_otel_context () () 0
        (ambient (Some recording_span) plain_record))) 0 ''trace_flags'' = Some (PInt 1)"
    by (simp only: a recording_span_formats)
  have b': "dicts (snd (add_trace_info () () 0
        (ambient (Some recording_span) plain_record))) 0 ''trace_flags'' = None"
    by (simp only: b no_span_state_facts(2) record_lookups)
  have c': "dicts (snd (add_trace_info () () 0
        (ambient (Some recording_span) plain_record))) 0 ''event'' = Some (PStr ''done'')"
    by (simp only: c no_span_state_facts(2) record_lookups)
  show ?thesis
    by (intro conjI) (rule recording_state_facts a' b' c')+
qed

text \<open>
  C10. Under a qualifying span (non-zero trace identifier; for \<open>add_otel_context\<close> also
  recording) the enricher returns the very dictionary it was given, in which
  \<open>trace_id\<close> and \<open>span_id\<close> (and \<open>trace_flags\<close> for \<open>add_otel_context\<close>) hold the values
  of the current span whatever the caller had put there, and every other key holds what it
  held before.
\<close>

theorem enrichers_overwrite_caller_ids:
  assumes "get_current_span s = Some sp" and "trace_id (get_span_context sp) \<noteq> 0"
  shows "fst (add_trace_info l m r s) = Inr r
    \<and> dicts (snd (add_trace_info l m r s)) r ''trace_id''
        = Some (PStr (format_0x 32 (trace_id (get_span_context sp))))
    \<and> dicts (snd (add_trace_info l m r s)) r ''span_id''
        = Some (PStr (format_0x 16 (span_id (get_span_context sp))))
    \<and> (\<forall>k. k \<notin> {''trace_id'', ''span_id''} \<longrightarrow>
          dicts (snd (add_trace_info l m r s)) r k = dicts s r k)
    \<and> (is_recording sp \<longrightarrow>
         fst (add_otel_context l m r s) = Inr r
         \<and> dicts (snd (add_otel_context l m r s)) r ''trace_id''
             = Some (PStr (format_0x 32 (trace_id (get_span_context sp))))
         \<and> dicts (snd (add_otel_context l m r s)) r ''span_id''
             = Some (PStr (format_0x 16 (span_id (get_span_context sp))))
         \<and> dicts (snd (add_otel_context l m r s)) r ''trace_flags''
             = Some (PInt (trace_flags (get_span_context sp)))
         \<and> (\<forall>k. k \<notin> {''trace_id'', ''span_id'', ''trace_flags''} \<longrightarrow>
               dicts (snd (add_otel_context l m r s)) r k = dicts s r k))"
proof -
  have a: "fst (add_trace_info l m r s) = Inr r
    \<and> dicts (snd (add_trace_info l m r s)) r ''trace_id''
        = Some (PStr (format_0x 32 (trace_id (get_span_context sp))))
    \<and> dicts (snd (add_trace_info l m r s)) r ''span_id''
        = Some (PStr (format_0x 16 (span_id (get_span_context sp))))
    \<and> (\<forall>k. k \<notin> {''trace_id'', ''span_id''} \<longrightarrow>
          dicts (snd (add_trace_info l m r s)) r k = dicts s r k)"
    by (simp add: add_trace_info_enriched [OF assms])
  have b: "fst (add_otel_context l m r s) = Inr r
         \<and> dicts (snd (add_otel_context l m r s)) r ''trace_id''
             = Some (PStr (format_0x 32 (trace_id (get_span_context sp))))
         \<and> dicts (snd (add_otel_context l m r s)) r ''span_id''
             = Some (PStr (format_0x 16 (span_id (get_span_context sp))))
         \<and> dicts (snd (add_otel_context l m r s)) r ''trace_flags''
             = Some (PInt (trace_flags (get_span_context sp)))
         \<and> (\<forall>k. k \<notin> {''trace_id'', ''span_id'', ''trace_flags''} \<longrightarrow>
               dicts (snd (add_otel_context l m r s)) r k = dicts s r k)"
    if "is_recording sp"
    by (simp add: add_otel_context_enriched [OF assms(1) that assms(2)])
  from a b show ?thesis by blast
qed

theorem enrichers_overwrite_caller_ids_witness:
  "get_current_span (ambient (Some recording_span) caller_record) = Some recording_span
   \<and> trace_id (get_span_context recording_span) \<noteq> 0 \<and> is_recording recording_span
   \<and> dicts (ambient (Some recording_span) caller_record) 0 ''trace_id'' = Some (PStr ''caller'')
   \<and> fst (add_trace_info () () 0 (ambient (Some recording_span) caller_record)) = Inr 0
   \<and> dicts (snd (add_trace_info () () 0 (ambient (Some recording_span) caller_record))) 0
        ''trace_id'' = Some (PStr ''0af7651916cd43dd8448eb211c80319c'')
   \<and> dicts (snd (add_trace_info () () 0 (ambient (Some recording_span) caller_record))) 0
        ''event'' = Some (PStr ''done'')
   \<and> fst (add_otel_context () () 0 (ambient (Some recording_span) caller_record)) = Inr 0
   \<and> dicts (snd (add_otel_context () () 0 (ambient (Some recording_span) caller_record))) 0
        ''trace_id'' = Some (PStr ''0af7651916cd43dd8448eb211c80319c'')
   \<and> dicts (snd (add_otel_context () () 0 (ambient (Some recording_span) caller_record))) 0
        ''event'' = Some (PStr ''done'')"
proof -
  note t = enrichers_overwrite_caller_ids
    [OF recording_state_facts(1) [of caller_record] recording_state_facts(3),
     where l = "()" and m = "()" and r = 0]
  note u = t [THEN conjunct2, THEN conjunct2, THEN conjunct2, THEN conjunct2, THEN mp,
    OF recording_state_facts(2)]
  have e: "''event'' \<notin> {''trace_id'', ''span_id''}" by simp
  have e': "''event'' \<notin> {''trace_id'', ''span_id'', ''trace_flags''}" by simp
  have p: "dicts (ambient (Some recording_span) caller_record) 0 ''trace_id''
      = Some (PStr ''caller'')"
    by (simp only: no_span_state_facts(2) record_lookups)
  have q: "dicts (ambient (Some recording_span) caller_record) 0 ''event''
      = Some (PStr ''done'')"
    by (simp only: no_span_state_facts(2) record_lookups)
  have a1: "fst (add_trace_info () () 0 (ambient (Some recording_span) caller_record)) = Inr 0"
    by (rule t [THEN conjunct1])
  have a2: "dicts (snd (add_trace_info () () 0 (ambient (Some recording_span) caller_record))) 0
        ''trace_id'' = Some (PStr ''0af7651916cd43dd8448eb211c80319c'')"
    using t [THEN conjunct2, THEN conjunct1] by (simp only: recording_span_formats)
  have a3: "dicts (snd (add_trace_info () () 0 (ambient (Some recording_span) caller_record))) 0
        ''event'' = Some (PStr ''done'')"
    using t [THEN conjunct2, THEN conjunct2, THEN conjunct2, THEN conjunct1, THEN spec,
      THEN mp, OF e] by (simp only: q)
  have b1: "fst (add_otel_context () () 0 (ambient (Some recording_span) caller_record)) = Inr 0"
    by (rule u [THEN conjunct1])
  have b2: "dicts (snd (add_otel_context () () 0 (ambient (Some recording_span) caller_record))) 0
        ''trace_id'' = Some (PStr ''0af7651916cd43dd8448eb211c80319c'')"
    using u [THEN conjunct2, THEN conjunct1] by (simp only: recording_span_formats)
  have b3: "dicts (snd (add_otel_context () () 0 (ambient (Some recording_span) caller_record))) 0
        ''event'' = Some (PStr ''done'')"
    using u [THEN conjunct2, THEN conjunct2, THEN conjunct2, THEN conjunct2, THEN spec,
      THEN mp, OF e'] by (simp only: q)
  show ?thesis
    by (intro conjI) (rule recording_state_facts p a1 a2 a3 b1 b2 b3)+
qed

section \<open>The configured export pipeline\<close>

text \<open>
  C9. Both batch processors of the multi-application example are configured with a queue
  of at most 512 entries, export batches of at most 128 and an export timeout of 30000 ms,
  that is 30 s; and with \<open>OTEL_EXPORTER_OTLP_ENDPOINT\<close> unset the collector endpoint, which
  both exporters use, is \<open>http://localhost:4317\<close>.
\<close>

theorem otlp_pipeline_configuration:
  "max_queue_size (span_processor env) = 512
   \<and> max_export_batch_size (span_processor env) = 128
   \<and> export_timeout_millis (span_processor env) = 30000
   \<and> max_queue_size (log_record_processor env) = 512
   \<and> max_export_batch_size (log_record_processor env) = 128
   \<and> export_timeout_millis (log_record_processor env) = 30000
   \<and> (30000 :: nat) = 30 * 1000
   \<and> endpoint (span_processor env) = OTEL_COLLECTOR_ENDPOINT env
   \<and> endpoint (log_record_processor env) = OTEL_COLLECTOR_ENDPOINT env
   \<and> (env ''OTEL_EXPORTER_OTLP_ENDPOINT'' = None \<longrightarrow>
        OTEL_COLLECTOR_ENDPOINT env = ''http://localhost:4317'')"
  by (simp add: span_processor_def log_record_processor_def OTEL_COLLECTOR_ENDPOINT_def
      getenv_def)

theorem otlp_pipeline_configuration_witness:
  "Map.empty ''OTEL_EXPORTER_OTLP_ENDPOINT'' = (None :: string option)
   \<and> OTEL_COLLECTOR_ENDPOINT Map.empty = ''http://localhost:4317''
   \<and> endpoint (span_processor Map.empty) = ''http://localhost:4317''
   \<and> endpoint (log_record_processor Map.empty) = ''http://localhost:4317''
   \<and> max_queue_size (span_processor Map.empty) = 512
   \<and> export_timeout_millis (log_record_processor Map.empty) = 30000"
  using otlp_pipeline_configuration [of Map.empty] by simp

section \<open>Calling the simulated external service\<close>

text \<open>
  What the body of \<open>call_external_service\<close> does when it runs under a current span: it
  raises the 503 exactly when the hash of the concatenated names is divisible by 10, after
  recording the exception and setting the error status on the span, and otherwise returns
  the success result.
\<close>

lemma call_external_service_def_unavailable:
  assumes "get_current_span s = Some sp" and "hash (service_name @ operation) mod 10 = 0"
  shows "fst (call_external_service_def hash now service_name operation s)
           = Inl (HTTPException 503 (service_name @ '' service unavailable''))"
  using assms
  by (simp add: call_external_service_def_def Let_def)

lemma call_external_service_def_unavailable_span:
  assumes "get_current_span s = Some sp" and "is_recording sp"
    and "hash (service_name @ operation) mod 10 = 0"
  shows "map_option status
           (get_current_span (snd (call_external_service_def hash now service_name operation s)))
           = Some ERROR"
    and "map_option events
           (get_current_span (snd (call_external_service_def hash now service_name operation s)))
           = Some (events sp @ [service_name @ '' service temporarily unavailable''])"
  using assms
  by (simp_all add: call_external_service_def_def set_attribute_def record_exception_def
      set_status_def on_span_def logger_call_def Let_def)

lemma call_external_service_def_success:
  assumes "get_current_span s = Some sp" and "hash (service_name @ operation) mod 10 \<noteq> 0"
  shows "fst (call_external_service_def hash now service_name operation s)
           = Inr [(''service'', service_name), (''result'', operation @ ''_completed'')]"
    and "map_option status
           (get_current_span (snd (call_external_service_def hash now service_name operation s)))
           = Some (status sp)"
  using assms
  by (simp_all add: call_external_service_def_def set_attribute_def on_span_def
      logger_call_def Let_def)

text \<open>
  The name \<open>call_external_service\<close> is bound to a context manager, not to that function:
  a call with two arguments raises \<open>TypeError\<close> and leaves the state untouched.
\<close>

lemma call_external_service_TypeError:
  "call_external_service hash now service_name operation s = (Inl TypeError, s)"
  by (simp add: call_external_service_def call2_def start_as_current_span_def)

text \<open>
  C8. At the call \<open>call_external_service("user-permissions", "get_permissions")\<close> of the
  \<open>get_user\<close> handler: whether the hash is divisible by 10 (where the body would raise the
  503) or not (where it would return the success result), the call raises \<open>TypeError\<close>.
\<close>

theorem call_external_service_raises_TypeError:
  "call_external_service (constant_hash 0) ''2026-01-01T00:00:00'' ''user-permissions''
       ''get_permissions'' (ambient (Some recording_span) plain_record)
     = (Inl TypeError, ambient (Some recording_span) plain_record)
   \<and> call_external_service (constant_hash 7) ''2026-01-01T00:00:00'' ''user-permissions''
       ''get_permissions'' (ambient (Some recording_span) plain_record)
     = (Inl TypeError, ambient (Some recording_span) plain_record)
   \<and> fst (call_external_service_def (constant_hash 0) ''2026-01-01T00:00:00''
       ''user-permissions'' ''get_permissions'' (ambient (Some recording_span) plain_record))
     = Inl (HTTPException 503 ''user-permissions service unavailable'')
   \<and> fst (call_external_service_def (constant_hash 7) ''2026-01-01T00:00:00''
       ''user-permissions'' ''get_permissions'' (ambient (Some recording_span) plain_record))
     = Inr [(''service'', ''user-permissions''), (''result'', ''get_permissions_completed'')]"
proof -
  have z: "constant_hash 0 (''user-permissions'' @ ''get_permissions'') mod 10 = 0"
    by (simp add: constant_hash_def)
  have n: "constant_hash 7 (''user-permissions'' @ ''get_permissions'') mod 10 \<noteq> 0"
    by (simp add: constant_hash_def)
  note c = recording_state_facts(1) [of plain_record]
  have a: "fst (call_external_service_def (constant_hash 0) ''2026-01-01T00:00:00''
       ''user-permissions'' ''get_permissions'' (ambient (Some recording_span) plain_record))
     = Inl (HTTPException 503 ''user-permissions service unavailable'')"
    using call_external_service_def_unavailable
      [where hash = "constant_hash 0" and service_name = "''user-permissions''"
         and operation = "''get_permissions''" and now = "''2026-01-01T00:00:00''", OF c z]
    by simp
  have b: "fst (call_external_service_def (constant_hash 7) ''2026-01-01T00:00:00''
       ''user-permissions'' ''get_permissions'' (ambient (Some recording_span) plain_record))
     = Inr [(''service'', ''user-permissions''), (''result'', ''get_permissions_completed'')]"
    using call_external_service_def_success(1)
      [where hash = "constant_hash 7" and service_name = "''user-permissions''"
         and operation = "''get_permissions''" and now = "''2026-01-01T00:00:00''", OF c n]
    by simp
  show ?thesis
    by (intro conjI) (rule call_external_service_TypeError a b)+
qed

end
